theory Spec2Isabelle
  imports Main "HOL-Library.Sublist"
begin

section \<open>Values and dictionaries\<close>

text \<open>
  The values that travel through the request handlers are dynamically typed: the decoded
  JSON body of a request, the keyword arguments of \<open>Company.create\<close> and
  \<open>Company.update\<close>, the attributes of a loaded instance. They are one datatype.
  JSON numbers with a fractional part are not represented. A string is a list of
  \<open>char\<close>, one per code point, so \<open>length\<close> is Python's \<open>len\<close> on the
  code points that \<open>char\<close> can hold.
\<close>

datatype json =
    JNull
  | JBool bool
  | JInt int
  | JStr string
  | JArr "json list"
  | JObj "(string \<times> json) list"

text \<open>
  A Python dict with string keys is an association list read through \<open>map_of\<close>;
  the dict is the list with distinct keys.
\<close>

type_synonym pydict = "(string \<times> json) list"

definition dict_has :: "pydict \<Rightarrow> string \<Rightarrow> bool" where
  "dict_has d k = (map_of d k \<noteq> None)"

definition dict_get_default :: "pydict \<Rightarrow> string \<Rightarrow> json \<Rightarrow> json" where
  "dict_get_default d k dflt = (case map_of d k of None \<Rightarrow> dflt | Some v \<Rightarrow> v)"

definition dict_get :: "pydict \<Rightarrow> string \<Rightarrow> json" where
  "dict_get d k = dict_get_default d k JNull"

section \<open>models.py: the Company table\<close>

text \<open>
  One row of table \<open>companies\<close>, column by column. The primary key \<open>id\<close> is
  named \<open>company_id\<close> here. \<open>name\<close> is the only column declared
  \<open>nullable=False\<close>; no column is declared \<open>unique\<close>.
  Timestamps are natural numbers (the instant \<open>db.func.now()\<close> evaluates to).
\<close>

record company =
  company_id :: string
  name :: string
  description :: "string option"
  logo_url :: "string option"
  parent_id :: "string option"
  organization_id :: "string option"
  address :: "string option"
  email :: "string option"
  phone_number :: "string option"
  website :: "string option"
  created_at :: "nat option"
  updated_at :: "nat option"
  is_active :: "bool option"
  registration_number :: "string option"
  tax_id :: "string option"
  country :: "string option"
  city :: "string option"
  postal_code :: "string option"
  employees_count :: "int option"

text \<open>The table is the list of its rows in insertion order.\<close>

type_synonym store = "company list"

text \<open>
  \<open>IntegrityError\<close> is a subclass of \<open>SQLAlchemyError\<close>; the second constructor
  stands for every other \<open>SQLAlchemyError\<close>.
\<close>

datatype storage_error = IntegrityError | SQLAlchemyError

definition get_all :: "store \<Rightarrow> company list" where
  "get_all db = db"

definition get_by_id :: "store \<Rightarrow> string \<Rightarrow> company option" where
  "get_by_id db cid = find (\<lambda>c. company_id c = cid) db"

definition get_by_name :: "store \<Rightarrow> string \<Rightarrow> company option" where
  "get_by_name db n = find (\<lambda>c. name c = n) db"

text \<open>
  Binding a Python value to a typed column at commit. \<open>None\<close> binds to NULL and a
  value of the column's own type binds to itself. What a database driver does with a
  value of another type depends on the driver; here the statement fails with a
  \<open>SQLAlchemyError\<close>, which the guards \<open>str_or_null\<close>, \<open>int_or_null\<close>
  and \<open>bool_or_null\<close> decide before the row is built.
\<close>

definition str_or_null :: "json \<Rightarrow> bool" where
  "str_or_null v = (case v of JNull \<Rightarrow> True | JStr s \<Rightarrow> True | _ \<Rightarrow> False)"

definition int_or_null :: "json \<Rightarrow> bool" where
  "int_or_null v = (case v of JNull \<Rightarrow> True | JInt n \<Rightarrow> True | _ \<Rightarrow> False)"

definition bool_or_null :: "json \<Rightarrow> bool" where
  "bool_or_null v = (case v of JNull \<Rightarrow> True | JBool b \<Rightarrow> True | _ \<Rightarrow> False)"

definition str_col :: "json \<Rightarrow> string option" where
  "str_col v = (case v of JStr s \<Rightarrow> Some s | _ \<Rightarrow> None)"

definition int_col :: "json \<Rightarrow> int option" where
  "int_col v = (case v of JInt n \<Rightarrow> Some n | _ \<Rightarrow> None)"

definition bool_col :: "json \<Rightarrow> bool option" where
  "bool_col v = (case v of JBool b \<Rightarrow> Some b | _ \<Rightarrow> None)"

text \<open>The optional string arguments that \<open>create\<close> and \<open>update\<close> share.\<close>

definition text_kwargs :: "string list" where
  "text_kwargs = [''description'', ''logo_url'', ''parent_id'', ''address'', ''email'',
     ''phone_number'', ''website'', ''registration_number'', ''tax_id'', ''country'',
     ''city'', ''postal_code'']"

text \<open>
  \<open>Company.create\<close>. The keyword arguments are a dict; an argument that the caller
  leaves out takes the default of the signature (\<open>None\<close>, and \<open>True\<close> for
  \<open>is_active\<close>). \<open>new_id\<close> is the value \<open>uuid.uuid4()\<close> returns and
  \<open>now\<close> the value of \<open>db.func.now()\<close>. \<open>organization_id\<close> is not a
  parameter: the row is built with \<open>organization_id=None\<close>. The commit fails with
  \<open>IntegrityError\<close> when the primary key is taken or \<open>name\<close> is NULL; these are
  the constraints the table declares apart from the foreign key of \<open>parent_id\<close>.
  A failed commit leaves the table as it was.
\<close>

definition create :: "string \<Rightarrow> nat \<Rightarrow> store \<Rightarrow> pydict \<Rightarrow> storage_error + (company \<times> store)" where
  "create new_id now db kwargs =
     (let arg = dict_get kwargs;
          active = dict_get_default kwargs ''is_active'' (JBool True)
      in if new_id \<in> set (map company_id db) \<or> arg ''name'' = JNull then Inl IntegrityError
         else if \<not> (str_col (arg ''name'') \<noteq> None \<and> list_all (\<lambda>k. str_or_null (arg k)) text_kwargs
                   \<and> bool_or_null active \<and> int_or_null (arg ''employees_count''))
         then Inl SQLAlchemyError
         else let c = \<lparr> company_id = new_id,
                         name = the (str_col (arg ''name'')),
                         description = str_col (arg ''description''),
                         logo_url = str_col (arg ''logo_url''),
                         parent_id = str_col (arg ''parent_id''),
                         organization_id = None,
                         address = str_col (arg ''address''),
                         email = str_col (arg ''email''),
                         phone_number = str_col (arg ''phone_number''),
                         website = str_col (arg ''website''),
                         created_at = Some now,
                         updated_at = Some now,
                         is_active = bool_col active,
                         registration_number = str_col (arg ''registration_number''),
                         tax_id = str_col (arg ''tax_id''),
                         country = str_col (arg ''country''),
                         city = str_col (arg ''city''),
                         postal_code = str_col (arg ''postal_code''),
                         employees_count = int_col (arg ''employees_count'') \<rparr>
              in Inr (c, db @ [c]))"

text \<open>
  \<open>Company.update\<close>: every argument that is not \<open>None\<close> is assigned, then
  \<open>updated_at\<close> is stamped and the session commits. An argument left out is
  \<open>None\<close>.
\<close>

definition set_str :: "json \<Rightarrow> string option \<Rightarrow> string option" where
  "set_str v old = (if v \<noteq> JNull then str_col v else old)"

definition update :: "nat \<Rightarrow> store \<Rightarrow> company \<Rightarrow> pydict \<Rightarrow> storage_error + (company \<times> store)" where
  "update now db self kwargs =
     (let arg = dict_get kwargs
      in if \<not> ((arg ''name'' = JNull \<or> str_col (arg ''name'') \<noteq> None)
                \<and> list_all (\<lambda>k. str_or_null (arg k)) (''organization_id'' # text_kwargs)
                \<and> bool_or_null (arg ''is_active'') \<and> int_or_null (arg ''employees_count''))
         then Inl SQLAlchemyError
         else let c = self \<lparr>
                 name := (if arg ''name'' \<noteq> JNull then the (str_col (arg ''name'')) else name self),
                 description := set_str (arg ''description'') (description self),
                 logo_url := set_str (arg ''logo_url'') (logo_url self),
                 parent_id := set_str (arg ''parent_id'') (parent_id self),
                 organization_id := set_str (arg ''organization_id'') (organization_id self),
                 address := set_str (arg ''address'') (address self),
                 email := set_str (arg ''email'') (email self),
                 phone_number := set_str (arg ''phone_number'') (phone_number self),
                 website := set_str (arg ''website'') (website self),
                 registration_number := set_str (arg ''registration_number'') (registration_number self),
                 tax_id := set_str (arg ''tax_id'') (tax_id self),
                 country := set_str (arg ''country'') (country self),
                 city := set_str (arg ''city'') (city self),
                 postal_code := set_str (arg ''postal_code'') (postal_code self),
                 employees_count := (if arg ''employees_count'' \<noteq> JNull
                                     then int_col (arg ''employees_count'') else employees_count self),
                 is_active := (if arg ''is_active'' \<noteq> JNull
                               then bool_col (arg ''is_active'') else is_active self),
                 updated_at := Some now \<rparr>
              in Inr (c, map (\<lambda>x. if company_id x = company_id self then c else x) db))"

definition delete :: "store \<Rightarrow> company \<Rightarrow> store" where
  "delete db self = filter (\<lambda>x. company_id x \<noteq> company_id self) db"

text \<open>
  The attribute of a row as a Python value, by column name (the timestamps apart).
\<close>

definition opt_str :: "string option \<Rightarrow> json" where
  "opt_str v = (case v of None \<Rightarrow> JNull | Some s \<Rightarrow> JStr s)"

definition attr :: "company \<Rightarrow> string \<Rightarrow> json" where
  "attr c k =
     (if k = ''id'' then JStr (company_id c)
      else if k = ''name'' then JStr (name c)
      else if k = ''description'' then opt_str (description c)
      else if k = ''logo_url'' then opt_str (logo_url c)
      else if k = ''parent_id'' then opt_str (parent_id c)
      else if k = ''organization_id'' then opt_str (organization_id c)
      else if k = ''address'' then opt_str (address c)
      else if k = ''email'' then opt_str (email c)
      else if k = ''phone_number'' then opt_str (phone_number c)
      else if k = ''website'' then opt_str (website c)
      else if k = ''is_active'' then (case is_active c of None \<Rightarrow> JNull | Some b \<Rightarrow> JBool b)
      else if k = ''registration_number'' then opt_str (registration_number c)
      else if k = ''tax_id'' then opt_str (tax_id c)
      else if k = ''country'' then opt_str (country c)
      else if k = ''city'' then opt_str (city c)
      else if k = ''postal_code'' then opt_str (postal_code c)
      else if k = ''employees_count'' then (case employees_count c of None \<Rightarrow> JNull | Some n \<Rightarrow> JInt n)
      else JNull)"

section \<open>schemas.py: the field validators\<close>

text \<open>
  Each \<open>@validates\<close> method either raises \<open>ValidationError\<close> with one message
  (\<open>Inl\<close>) or returns the value (\<open>Inr\<close>). The value has passed the field's own
  deserialisation before, so a string field hands over a string or \<open>None\<close>, and
  the integer field an integer or \<open>None\<close>: the \<open>isinstance\<close> tests of
  \<open>validate_parent_id\<close> and \<open>validate_employees_count\<close> always hold.
  \<open>if value\<close> on a string or \<open>None\<close> is: not \<open>None\<close> and not empty.
\<close>

definition startswith_http :: "string \<Rightarrow> bool" where
  "startswith_http s = (prefix ''http://'' s \<or> prefix ''https://'' s)"

definition validate_name :: "store \<Rightarrow> string option \<Rightarrow> string + string option" where
  "validate_name db v =
     (case v of
        None \<Rightarrow> Inl ''Name cannot be empty.''
      | Some s \<Rightarrow>
          if s = [] then Inl ''Name cannot be empty.''
          else if get_by_name db s \<noteq> None then Inl ''Name must be unique.''
          else if length s > 100 then Inl ''Name cannot exceed 100 characters.''
          else Inr v)"

definition exceeds :: "string option \<Rightarrow> nat \<Rightarrow> bool" where
  "exceeds v n = (case v of None \<Rightarrow> False | Some s \<Rightarrow> s \<noteq> [] \<and> length s > n)"

definition validate_description :: "string option \<Rightarrow> string + string option" where
  "validate_description v =
     (if exceeds v 500 then Inl ''Description cannot exceed 500 characters.'' else Inr v)"

definition validate_logo_url :: "string option \<Rightarrow> string + string option" where
  "validate_logo_url v =
     (if (case v of None \<Rightarrow> False | Some s \<Rightarrow> s \<noteq> [] \<and> \<not> startswith_http s)
      then Inl ''Logo URL must be a valid URL.''
      else if exceeds v 255 then Inl ''Logo URL cannot exceed 255 characters.''
      else Inr v)"

definition validate_parent_id :: "store \<Rightarrow> string option \<Rightarrow> string + string option" where
  "validate_parent_id db v =
     (case v of
        None \<Rightarrow> Inr v
      | Some s \<Rightarrow> if s \<noteq> [] \<and> get_by_id db s = None
                  then Inl ''Parent company does not exist.'' else Inr v)"

definition validate_address :: "string option \<Rightarrow> string + string option" where
  "validate_address v =
     (if exceeds v 255 then Inl ''Address cannot exceed 255 characters.'' else Inr v)"

definition validate_email :: "string option \<Rightarrow> string + string option" where
  "validate_email v =
     (if exceeds v 100 then Inl ''Email cannot exceed 100 characters.''
      else if (case v of None \<Rightarrow> False | Some s \<Rightarrow> s \<noteq> [] \<and> CHR ''@'' \<notin> set s)
      then Inl ''Email must be a valid email address.''
      else Inr v)"

definition validate_phone_number :: "string option \<Rightarrow> string + string option" where
  "validate_phone_number v =
     (if exceeds v 20 then Inl ''Phone number cannot exceed 20 characters.'' else Inr v)"

definition validate_website :: "string option \<Rightarrow> string + string option" where
  "validate_website v =
     (if (case v of None \<Rightarrow> False | Some s \<Rightarrow> s \<noteq> [] \<and> \<not> startswith_http s)
      then Inl ''Website must be a valid URL.''
      else if exceeds v 100 then Inl ''Website cannot exceed 100 characters.''
      else Inr v)"

definition validate_registration_number :: "string option \<Rightarrow> string + string option" where
  "validate_registration_number v =
     (if exceeds v 100 then Inl ''Registration number cannot exceed 100 characters.'' else Inr v)"

definition validate_tax_id :: "string option \<Rightarrow> string + string option" where
  "validate_tax_id v =
     (if exceeds v 50 then Inl ''Tax ID cannot exceed 50 characters.'' else Inr v)"

definition validate_country :: "string option \<Rightarrow> string + string option" where
  "validate_country v =
     (if exceeds v 100 then Inl ''Country cannot exceed 100 characters.'' else Inr v)"

definition validate_city :: "string option \<Rightarrow> string + string option" where
  "validate_city v =
     (if exceeds v 100 then Inl ''City cannot exceed 100 characters.'' else Inr v)"

definition validate_postal_code :: "string option \<Rightarrow> string + string option" where
  "validate_postal_code v =
     (if exceeds v 20 then Inl ''Postal code cannot exceed 20 characters.'' else Inr v)"

definition validate_employees_count :: "int option \<Rightarrow> string + int option" where
  "validate_employees_count v =
     (if (case v of None \<Rightarrow> False | Some n \<Rightarrow> n < 0)
      then Inl ''Employees count must be a non-negative integer.'' else Inr v)"

section \<open>schemas.py: CompanySchema and its load\<close>

text \<open>
  \<open>CompanySchema\<close> is a \<open>SQLAlchemyAutoSchema\<close>: its fields are not written in
  schemas.py but derived from the columns of \<open>Company\<close>, and \<open>load\<close> is the
  library's. What follows is the library's documented behaviour for that declaration.
  \<^item> \<open>id\<close>, \<open>created_at\<close> and \<open>updated_at\<close> are \<open>dump_only\<close>: on load
    they are unknown fields like any other key that is not a field.
  \<^item> A \<open>String(n)\<close> column gives a string field with the validator
    \<open>Length(max=n)\<close>, a \<open>Boolean\<close> column a boolean field, an \<open>Integer\<close>
    column an integer field (not strict).
  \<^item> A nullable column gives \<open>allow_none\<close>; a column that is not nullable and has
    no default gives \<open>required\<close>. Only \<open>name\<close> is such a column.
  \<^item> A key of the input that is not a field is an error (\<open>unknown = RAISE\<close>).
  \<^item> A \<open>@validates\<close> method runs on the deserialised value of its field when the
    field is in the input and its deserialisation succeeded; every field is treated on
    its own and the errors of all fields are gathered in one dict.
\<close>

datatype ftype = String_field nat | Boolean_field | Integer_field

text \<open>Key, type, \<open>required\<close>, \<open>allow_none\<close>, in the order of the columns.\<close>

definition schema_fields :: "(string \<times> ftype \<times> bool \<times> bool) list" where
  "schema_fields =
     [(''name'', String_field 100, True, False),
      (''description'', String_field 500, False, True),
      (''logo_url'', String_field 255, False, True),
      (''parent_id'', String_field 100, False, True),
      (''organization_id'', String_field 100, False, True),
      (''address'', String_field 255, False, True),
      (''email'', String_field 100, False, True),
      (''phone_number'', String_field 20, False, True),
      (''website'', String_field 100, False, True),
      (''is_active'', Boolean_field, False, True),
      (''registration_number'', String_field 100, False, True),
      (''tax_id'', String_field 50, False, True),
      (''country'', String_field 100, False, True),
      (''city'', String_field 100, False, True),
      (''postal_code'', String_field 20, False, True),
      (''employees_count'', Integer_field, False, True)]"

subsection \<open>Python's \<open>str\<close> and \<open>int\<close> on integers\<close>

fun str_nat :: "nat \<Rightarrow> string" where
  "str_nat n = (if n < 10 then [char_of (48 + n)]
                else str_nat (n div 10) @ [char_of (48 + n mod 10)])"

declare str_nat.simps [simp del]

definition str_int :: "int \<Rightarrow> string" where
  "str_int i = (if i < 0 then CHR ''-'' # str_nat (nat (- i)) else str_nat (nat i))"

definition is_space :: "char \<Rightarrow> bool" where
  "is_space c = (let n = (of_char c :: nat)
                 in (9 \<le> n \<and> n \<le> 13) \<or> (28 \<le> n \<and> n \<le> 32) \<or> n = 133 \<or> n = 160)"

definition is_digit :: "char \<Rightarrow> bool" where
  "is_digit c = (let n = (of_char c :: nat) in 48 \<le> n \<and> n \<le> 57)"

definition digit_val :: "char \<Rightarrow> nat" where
  "digit_val c = of_char c - 48"

definition strip :: "string \<Rightarrow> string" where
  "strip s = rev (dropWhile is_space (rev (dropWhile is_space s)))"

text \<open>
  Decimal digits, with single underscores allowed between two digits. The flag says
  that the character before was a digit.
\<close>

fun parse_digits :: "bool \<Rightarrow> nat \<Rightarrow> string \<Rightarrow> nat option" where
  "parse_digits prev acc [] = (if prev then Some acc else None)"
| "parse_digits prev acc (c # cs) =
     (if is_digit c then parse_digits True (10 * acc + digit_val c) cs
      else if c = CHR ''_'' \<and> prev then parse_digits False acc cs
      else None)"

text \<open>
  \<open>int(s)\<close> on a string: surrounding white space, one optional sign, digits.
  \<open>None\<close> is \<open>ValueError\<close>. The interpreter's limit on the number of digits is
  not modelled.
\<close>

definition py_int :: "string \<Rightarrow> int option" where
  "py_int s =
     (case strip s of
        [] \<Rightarrow> None
      | c # cs \<Rightarrow>
          if c = CHR ''-'' then map_option (\<lambda>n. - int n) (parse_digits False 0 cs)
          else if c = CHR ''+'' then map_option int (parse_digits False 0 cs)
          else map_option int (parse_digits False 0 (c # cs)))"

subsection \<open>Deserialising one field\<close>

definition truthy :: "string list" where
  "truthy = [''t'', ''T'', ''true'', ''True'', ''TRUE'', ''on'', ''On'', ''ON'',
             ''y'', ''Y'', ''yes'', ''Yes'', ''YES'', ''1'']"

definition falsy :: "string list" where
  "falsy = [''f'', ''F'', ''false'', ''False'', ''FALSE'', ''off'', ''Off'', ''OFF'',
            ''n'', ''N'', ''no'', ''No'', ''NO'', ''0'']"

text \<open>The field's own deserialisation of a value that is not \<open>None\<close>.\<close>

definition deserialize :: "ftype \<Rightarrow> json \<Rightarrow> string + json" where
  "deserialize t v =
     (case t of
        String_field n \<Rightarrow>
          (case v of
             JStr s \<Rightarrow> if length s > n
                       then Inl (''Longer than maximum length '' @ str_nat n @ ''.'')
                       else Inr v
           | _ \<Rightarrow> Inl ''Not a valid string.'')
      | Boolean_field \<Rightarrow>
          (case v of
             JBool b \<Rightarrow> Inr v
           | JInt i \<Rightarrow> if i = 1 then Inr (JBool True)
                       else if i = 0 then Inr (JBool False)
                       else Inl ''Not a valid boolean.''
           | JStr s \<Rightarrow> if s \<in> set truthy then Inr (JBool True)
                       else if s \<in> set falsy then Inr (JBool False)
                       else Inl ''Not a valid boolean.''
           | _ \<Rightarrow> Inl ''Not a valid boolean.'')
      | Integer_field \<Rightarrow>
          (case v of
             JInt i \<Rightarrow> Inr v
           | JStr s \<Rightarrow> (case py_int s of
                          Some i \<Rightarrow> Inr (JInt i)
                        | None \<Rightarrow> Inl ''Not a valid integer.'')
           | _ \<Rightarrow> Inl ''Not a valid integer.''))"

definition message :: "string + 'a \<Rightarrow> string option" where
  "message r = (case r of Inl m \<Rightarrow> Some m | Inr v \<Rightarrow> None)"

text \<open>
  The \<open>@validates\<close> method registered for a field, if any, on the deserialised value:
  the message it raises.
\<close>

definition validates :: "store \<Rightarrow> string \<Rightarrow> json \<Rightarrow> string option" where
  "validates db k v =
     (if k = ''name'' then message (validate_name db (str_col v))
      else if k = ''description'' then message (validate_description (str_col v))
      else if k = ''logo_url'' then message (validate_logo_url (str_col v))
      else if k = ''parent_id'' then message (validate_parent_id db (str_col v))
      else if k = ''address'' then message (validate_address (str_col v))
      else if k = ''email'' then message (validate_email (str_col v))
      else if k = ''phone_number'' then message (validate_phone_number (str_col v))
      else if k = ''website'' then message (validate_website (str_col v))
      else if k = ''registration_number'' then message (validate_registration_number (str_col v))
      else if k = ''tax_id'' then message (validate_tax_id (str_col v))
      else if k = ''country'' then message (validate_country (str_col v))
      else if k = ''city'' then message (validate_city (str_col v))
      else if k = ''postal_code'' then message (validate_postal_code (str_col v))
      else if k = ''employees_count'' then message (validate_employees_count (int_col v))
      else None)"

text \<open>
  What a value supplied for a field comes to: the messages of the field (\<open>Inl\<close>) or
  the deserialised value (\<open>Inr\<close>).
\<close>

definition check_value :: "store \<Rightarrow> string \<times> ftype \<times> bool \<times> bool \<Rightarrow> json \<Rightarrow> string list + json" where
  "check_value db f v =
     (case f of (k, t, required, allow_none) \<Rightarrow>
        (case (if v = JNull
               then (if allow_none then Inr JNull else Inl ''Field may not be null.'')
               else deserialize t v) of
           Inl m \<Rightarrow> Inl [m]
         | Inr w \<Rightarrow> (case validates db k w of Some m \<Rightarrow> Inl [m] | None \<Rightarrow> Inr w)))"

text \<open>One field against the input dict; \<open>None\<close> when the field is left out and may be.\<close>

definition load_field :: "store \<Rightarrow> bool \<Rightarrow> pydict \<Rightarrow> string \<times> ftype \<times> bool \<times> bool \<Rightarrow> (string list + json) option" where
  "load_field db partial d f =
     (case f of (k, t, required, allow_none) \<Rightarrow>
        (case map_of d k of
           None \<Rightarrow> if required \<and> \<not> partial
                   then Some (Inl [''Missing data for required field.'']) else None
         | Some v \<Rightarrow> Some (check_value db f v)))"

type_synonym errors = "(string \<times> string list) list"

fun field_errors :: "store \<Rightarrow> bool \<Rightarrow> pydict \<Rightarrow> (string \<times> ftype \<times> bool \<times> bool) list \<Rightarrow> errors" where
  "field_errors db partial d [] = []"
| "field_errors db partial d (f # fs) =
     (case load_field db partial d f of
        Some (Inl m) \<Rightarrow> (fst f, m) # field_errors db partial d fs
      | _ \<Rightarrow> field_errors db partial d fs)"

fun field_values :: "store \<Rightarrow> bool \<Rightarrow> pydict \<Rightarrow> (string \<times> ftype \<times> bool \<times> bool) list \<Rightarrow> pydict" where
  "field_values db partial d [] = []"
| "field_values db partial d (f # fs) =
     (case load_field db partial d f of
        Some (Inr v) \<Rightarrow> (fst f, v) # field_values db partial d fs
      | _ \<Rightarrow> field_values db partial d fs)"

definition unknown_errors :: "pydict \<Rightarrow> errors" where
  "unknown_errors d =
     map (\<lambda>kv. (fst kv, [''Unknown field.'']))
         (filter (\<lambda>kv. fst kv \<notin> set (map fst schema_fields)) d)"

text \<open>
  \<open>company_schema.load(data, partial=...)\<close>: \<open>ValidationError\<close> with the dict of
  messages (\<open>Inl\<close>), or the loaded instance (\<open>Inr\<close>), given by the attributes the
  input set; every other attribute of the instance is \<open>None\<close>.
\<close>

definition load :: "store \<Rightarrow> bool \<Rightarrow> json \<Rightarrow> errors + pydict" where
  "load db partial data =
     (case data of
        JObj d \<Rightarrow>
          (let errs = field_errors db partial d schema_fields @ unknown_errors d
           in if errs = [] then Inr (field_values db partial d schema_fields) else Inl errs)
      | _ \<Rightarrow> Inl [(''_schema'', [''Invalid input type.''])])"

section \<open>resources/companies.py\<close>

text \<open>
  The body of a response, as far as the handlers decide it; \<open>Company_json c\<close> is
  \<open>company_schema.dump(c)\<close>. A response is a body and a status code. A handler takes
  the table and gives the response and the table after the request.
  \<open>Unhandled_exception\<close> is an exception that no \<open>except\<close> clause of the
  handler catches.
\<close>

datatype body =
    Companies_json "company list"
  | Company_json company
  | Validation_error errors
  | Integrity_error
  | Database_error
  | Message string
  | Import_success nat
  | Import_errors nat "(nat \<times> errors) list"
  | Csv_file "string list list"
  | Unhandled_exception

type_synonym response = "body \<times> nat"

definition CompanyListResource_get :: "store \<Rightarrow> response \<times> store" where
  "CompanyListResource_get db = ((Companies_json (get_all db), 200), db)"

text \<open>
  The keyword arguments that \<open>post\<close> and \<open>put\<close> build from the request body:
  the raw values of the body, not the loaded ones. \<open>n\<close> is \<open>json_data['name']\<close>.
\<close>

definition request_kwargs :: "pydict \<Rightarrow> json \<Rightarrow> pydict" where
  "request_kwargs json_data n =
     [(''name'', n),
      (''description'', dict_get json_data ''description''),
      (''address'', dict_get json_data ''address''),
      (''phone_number'', dict_get json_data ''phone_number''),
      (''email'', dict_get json_data ''email''),
      (''website'', dict_get json_data ''website''),
      (''logo_url'', dict_get json_data ''logo_url''),
      (''registration_number'', dict_get json_data ''registration_number''),
      (''tax_id'', dict_get json_data ''tax_id''),
      (''country'', dict_get json_data ''country''),
      (''city'', dict_get json_data ''city''),
      (''postal_code'', dict_get json_data ''postal_code''),
      (''employees_count'', dict_get_default json_data ''employees_count'' (JInt 0))]"

definition storage_failure :: "storage_error \<Rightarrow> response" where
  "storage_failure e = (case e of IntegrityError \<Rightarrow> (Integrity_error, 400)
                                | SQLAlchemyError \<Rightarrow> (Database_error, 500))"

definition CompanyListResource_post :: "string \<Rightarrow> nat \<Rightarrow> store \<Rightarrow> json \<Rightarrow> response \<times> store" where
  "CompanyListResource_post new_id now db json_data =
     (case load db False json_data of
        Inl messages \<Rightarrow> ((Validation_error messages, 400), db)
      | Inr loaded \<Rightarrow>
          (case json_data of
             JObj d \<Rightarrow>
               (case map_of d ''name'' of
                  None \<Rightarrow> ((Unhandled_exception, 500), db)
                | Some n \<Rightarrow>
                    (case create new_id now db (request_kwargs d n) of
                       Inl e \<Rightarrow> (storage_failure e, db)
                     | Inr (company, db') \<Rightarrow> ((Company_json company, 201), db')))
           | _ \<Rightarrow> ((Unhandled_exception, 500), db)))"

definition CompanyResource_get :: "store \<Rightarrow> string \<Rightarrow> response \<times> store" where
  "CompanyResource_get db cid =
     (case get_by_id db cid of
        None \<Rightarrow> ((Message ''Company not found'', 404), db)
      | Some company \<Rightarrow> ((Company_json company, 200), db))"

definition CompanyResource_put :: "nat \<Rightarrow> store \<Rightarrow> string \<Rightarrow> json \<Rightarrow> response \<times> store" where
  "CompanyResource_put now db cid json_data =
     (case load db False json_data of
        Inl messages \<Rightarrow> ((Validation_error messages, 400), db)
      | Inr loaded \<Rightarrow>
          (case get_by_id db cid of
             None \<Rightarrow> ((Message ''Company not found'', 404), db)
           | Some company \<Rightarrow>
               (case json_data of
                  JObj d \<Rightarrow>
                    (case map_of d ''name'' of
                       None \<Rightarrow> ((Unhandled_exception, 500), db)
                     | Some n \<Rightarrow>
                         (case update now db company (request_kwargs d n) of
                            Inl e \<Rightarrow> (storage_failure e, db)
                          | Inr (company', db') \<Rightarrow> ((Company_json company', 200), db')))
                | _ \<Rightarrow> ((Unhandled_exception, 500), db))))"

text \<open>The keys that \<open>patch\<close> copies into \<open>update_kwargs\<close> when the body has them.\<close>

definition patch_keys :: "string list" where
  "patch_keys = [''name'', ''description'', ''address'', ''phone_number'', ''email'',
     ''website'', ''logo_url'', ''registration_number'', ''tax_id'', ''country'', ''city'',
     ''postal_code'', ''employees_count'', ''is_active'', ''organization_id'', ''parent_id'']"

definition update_kwargs :: "pydict \<Rightarrow> pydict" where
  "update_kwargs json_data =
     map (\<lambda>k. (k, dict_get json_data k)) (filter (dict_has json_data) patch_keys)"

definition CompanyResource_patch :: "nat \<Rightarrow> store \<Rightarrow> string \<Rightarrow> json \<Rightarrow> response \<times> store" where
  "CompanyResource_patch now db cid json_data =
     (case load db True json_data of
        Inl messages \<Rightarrow> ((Validation_error messages, 400), db)
      | Inr loaded \<Rightarrow>
          (case get_by_id db cid of
             None \<Rightarrow> ((Message ''Company item not found'', 404), db)
           | Some company \<Rightarrow>
               (case json_data of
                  JObj d \<Rightarrow>
                    (case update now db company (update_kwargs d) of
                       Inl e \<Rightarrow> (storage_failure e, db)
                     | Inr (company', db') \<Rightarrow> ((Company_json company', 200), db'))
                | _ \<Rightarrow> ((Unhandled_exception, 500), db))))"

definition CompanyResource_delete :: "store \<Rightarrow> string \<Rightarrow> response \<times> store" where
  "CompanyResource_delete db cid =
     (case get_by_id db cid of
        None \<Rightarrow> ((Message ''Company not found'', 404), db)
      | Some company \<Rightarrow> ((Message ''Company deleted successfully'', 204), delete db company))"

section \<open>resources/export_to.py\<close>

text \<open>
  The CSV file is the list of its rows, each the list of its cells as \<open>csv.writer\<close>
  renders them: \<open>None\<close> as the empty cell, a string as itself, every other value by
  \<open>str\<close>. The text of the file (quoting, line ends) is not modelled.
\<close>

definition csv_header :: "string list" where
  "csv_header = [''id'', ''name'', ''description'', ''logo_url'', ''parent_id'',
     ''organization_id'', ''address'', ''email'', ''phone_number'', ''website'',
     ''created_at'', ''updated_at'', ''is_active'', ''registration_number'',
     ''tax_id'', ''country'', ''city'', ''postal_code'', ''employees_count'']"

definition cell :: "string option \<Rightarrow> string" where
  "cell v = (case v of None \<Rightarrow> [] | Some s \<Rightarrow> s)"

definition export_row :: "(nat \<Rightarrow> string) \<Rightarrow> company \<Rightarrow> string list" where
  "export_row isoformat c =
     [company_id c,
      name c,
      cell (description c),
      cell (logo_url c),
      cell (parent_id c),
      cell (organization_id c),
      cell (address c),
      cell (email c),
      cell (phone_number c),
      cell (website c),
      (case created_at c of Some t \<Rightarrow> isoformat t | None \<Rightarrow> []),
      (case updated_at c of Some t \<Rightarrow> isoformat t | None \<Rightarrow> []),
      (case is_active c of None \<Rightarrow> [] | Some b \<Rightarrow> if b then ''True'' else ''False''),
      cell (registration_number c),
      cell (tax_id c),
      cell (country c),
      cell (city c),
      cell (postal_code c),
      (case employees_count c of None \<Rightarrow> [] | Some n \<Rightarrow> str_int n)]"

text \<open>The rows written: the header, then one row for each company.\<close>

definition export_lines :: "(nat \<Rightarrow> string) \<Rightarrow> store \<Rightarrow> string list list" where
  "export_lines isoformat db = csv_header # map (export_row isoformat) (get_all db)"

definition ExportCSVResource_get :: "(nat \<Rightarrow> string) \<Rightarrow> store \<Rightarrow> response \<times> store" where
  "ExportCSVResource_get isoformat db = ((Csv_file (export_lines isoformat db), 200), db)"

section \<open>resources/import_from.py\<close>

text \<open>
  The uploaded file: missing from the request, sent without a name, not readable in
  its format (\<open>JSONDecodeError\<close>, \<open>UnicodeDecodeError\<close>, \<open>csv.Error\<close>), or
  read. A JSON file is read to its value, a CSV file to the dicts that
  \<open>csv.DictReader\<close> yields: the cells of a row under the names of the header, and
  \<open>None\<close> for a cell the row lacks.
\<close>

datatype 'a upload = No_file_part | No_selected_file | Unreadable | Content 'a

text \<open>The arguments both import loops pass to \<open>Company.create\<close>, from the loaded instance.\<close>

definition import_kwargs :: "pydict \<Rightarrow> pydict" where
  "import_kwargs validated =
     [(''name'', dict_get validated ''name''),
      (''description'', dict_get validated ''description''),
      (''logo_url'', dict_get validated ''logo_url''),
      (''parent_id'', dict_get validated ''parent_id''),
      (''address'', dict_get validated ''address''),
      (''email'', dict_get validated ''email''),
      (''phone_number'', dict_get validated ''phone_number''),
      (''website'', dict_get validated ''website''),
      (''registration_number'', dict_get validated ''registration_number''),
      (''tax_id'', dict_get validated ''tax_id''),
      (''country'', dict_get validated ''country''),
      (''city'', dict_get validated ''city''),
      (''postal_code'', dict_get validated ''postal_code''),
      (''employees_count'', dict_get validated ''employees_count'')]"

text \<open>
  The loop over the rows, which both handlers run with the same body. \<open>ids idx\<close> is
  the identifier drawn while row \<open>idx\<close> is created. A \<open>ValidationError\<close> is
  recorded with the index of the row and the loop goes on; a \<open>SQLAlchemyError\<close>
  leaves the loop, and the rows committed before stay.
\<close>

fun import_rows :: "(nat \<Rightarrow> string) \<Rightarrow> nat \<Rightarrow> json list \<Rightarrow> nat \<Rightarrow> store \<Rightarrow> nat \<Rightarrow> (nat \<times> errors) list
    \<Rightarrow> (storage_error + nat \<times> (nat \<times> errors) list) \<times> store" where
  "import_rows ids now [] idx db count errs = (Inr (count, errs), db)"
| "import_rows ids now (item # rest) idx db count errs =
     (case load db False item of
        Inl messages \<Rightarrow> import_rows ids now rest (idx + 1) db count (errs @ [(idx, messages)])
      | Inr validated \<Rightarrow>
          (case create (ids idx) now db (import_kwargs validated) of
             Inl e \<Rightarrow> (Inl e, db)
           | Inr (company, db') \<Rightarrow> import_rows ids now rest (idx + 1) db' (count + 1) errs))"

definition import_response :: "storage_error + nat \<times> (nat \<times> errors) list \<Rightarrow> response" where
  "import_response r =
     (case r of
        Inl e \<Rightarrow> (Database_error, 400)
      | Inr (count, errs) \<Rightarrow>
          if errs \<noteq> [] then (Import_errors count errs, if count = 0 then 400 else 207)
          else (Import_success count, 200))"

definition ImportJSONResource_post :: "(nat \<Rightarrow> string) \<Rightarrow> nat \<Rightarrow> store \<Rightarrow> json upload \<Rightarrow> response \<times> store" where
  "ImportJSONResource_post ids now db file =
     (case file of
        No_file_part \<Rightarrow> ((Message ''No file part in the request.'', 400), db)
      | No_selected_file \<Rightarrow> ((Message ''No selected file.'', 400), db)
      | Unreadable \<Rightarrow> ((Message ''Invalid JSON file'', 400), db)
      | Content data \<Rightarrow>
          (case data of
             JArr items \<Rightarrow>
               (case import_rows ids now items 0 db 0 [] of (r, db') \<Rightarrow> (import_response r, db'))
           | _ \<Rightarrow> ((Message ''JSON must be a list of objects.'', 400), db)))"

text \<open>
  What the CSV loop makes of a row before loading it: the empty cell becomes
  \<open>None\<close>, and \<open>id\<close>, \<open>created_at\<close> and \<open>updated_at\<close> are removed.
\<close>

definition cell_value :: "string option \<Rightarrow> json" where
  "cell_value v = (case v of None \<Rightarrow> JNull | Some s \<Rightarrow> if s \<noteq> [] then JStr s else JNull)"

definition csv_row_data :: "(string \<times> string option) list \<Rightarrow> pydict" where
  "csv_row_data row =
     filter (\<lambda>kv. fst kv \<noteq> ''id'' \<and> fst kv \<noteq> ''created_at'' \<and> fst kv \<noteq> ''updated_at'')
       (map (\<lambda>kv. (fst kv, cell_value (snd kv))) row)"

definition ImportCSVResource_post :: "(nat \<Rightarrow> string) \<Rightarrow> nat \<Rightarrow> store \<Rightarrow> (string \<times> string option) list list upload
    \<Rightarrow> response \<times> store" where
  "ImportCSVResource_post ids now db file =
     (case file of
        No_file_part \<Rightarrow> ((Message ''No file part in the request.'', 400), db)
      | No_selected_file \<Rightarrow> ((Message ''No selected file.'', 400), db)
      | Unreadable \<Rightarrow> ((Message ''Invalid CSV file'', 400), db)
      | Content reader \<Rightarrow>
          (case import_rows ids now (map (\<lambda>row. JObj (csv_row_data row)) reader) 0 db 0 [] of
             (r, db') \<Rightarrow> (import_response r, db')))"


section \<open>The HTTP surface\<close>

datatype request =
    List_companies
  | Post_company json
  | Get_company string
  | Put_company string json
  | Patch_company string json
  | Delete_company string
  | Export_csv
  | Import_json "json upload"
  | Import_csv "(string \<times> string option) list list upload"

text \<open>
  One request against the table. \<open>ids\<close> are the identifiers \<open>uuid4\<close> draws during
  the request, \<open>now\<close> is the clock, \<open>isoformat\<close> renders a timestamp.
\<close>

definition handle :: "(nat \<Rightarrow> string) \<Rightarrow> nat \<Rightarrow> (nat \<Rightarrow> string) \<Rightarrow> store \<Rightarrow> request \<Rightarrow> response \<times> store" where
  "handle ids now isoformat db r =
     (case r of
        List_companies \<Rightarrow> CompanyListResource_get db
      | Post_company json_data \<Rightarrow> CompanyListResource_post (ids 0) now db json_data
      | Get_company cid \<Rightarrow> CompanyResource_get db cid
      | Put_company cid json_data \<Rightarrow> CompanyResource_put now db cid json_data
      | Patch_company cid json_data \<Rightarrow> CompanyResource_patch now db cid json_data
      | Delete_company cid \<Rightarrow> CompanyResource_delete db cid
      | Export_csv \<Rightarrow> ExportCSVResource_get isoformat db
      | Import_json file \<Rightarrow> ImportJSONResource_post ids now db file
      | Import_csv file \<Rightarrow> ImportCSVResource_post ids now db file)"

section \<open>Requests served one after another\<close>

text \<open>
  Each request comes with what the outside gives it: the identifiers \<open>uuid4\<close> draws
  and the clock. A request is handled to its end before the next one starts.
\<close>

fun serve :: "(nat \<Rightarrow> string) \<Rightarrow> store \<Rightarrow> ((nat \<Rightarrow> string) \<times> nat \<times> request) list \<Rightarrow> store" where
  "serve isoformat db [] = db"
| "serve isoformat db ((ids, now, r) # rs) = serve isoformat (snd (handle ids now isoformat db r)) rs"

text \<open>No two rows share their identifier, and no two rows share their name.\<close>

definition unique_rows :: "store \<Rightarrow> bool" where
  "unique_rows db = (distinct (map company_id db) \<and> distinct (map name db))"

section \<open>A batch, row by row\<close>


section \<open>Export, then import\<close>





section \<open>Example data\<close>

text \<open>A small table and request bodies, on which the properties below are run.\<close>

definition acme :: company where
  "acme = \<lparr> company_id = ''c1'', name = ''Acme'', description = Some ''Old'', logo_url = None,
            parent_id = None, organization_id = None, address = None, email = None,
            phone_number = None, website = None, created_at = Some 1, updated_at = Some 1,
            is_active = Some True, registration_number = None, tax_id = None, country = None,
            city = None, postal_code = None, employees_count = Some 0 \<rparr>"

definition bad_payload :: pydict where
  "bad_payload = [(''name'', JStr []), (''email'', JStr ''nobody''), (''employees_count'', JInt (- 1))]"

definition beta_payload :: pydict where
  "beta_payload = [(''name'', JStr ''Beta''), (''parent_id'', JStr ''c1''),
     (''organization_id'', JStr ''org1''), (''is_active'', JBool False)]"

definition beta :: company where
  "beta = \<lparr> company_id = ''c2'', name = ''Beta'', description = None, logo_url = None,
            parent_id = None, organization_id = None, address = None, email = None,
            phone_number = None, website = None, created_at = Some 2, updated_at = Some 2,
            is_active = Some True, registration_number = None, tax_id = None, country = None,
            city = None, postal_code = None, employees_count = Some 0 \<rparr>"



definition acme_twin :: company where
  "acme_twin = \<lparr> company_id = ''c2'', name = ''Acme'', description = None, logo_url = None,
            parent_id = None, organization_id = None, address = None, email = None,
            phone_number = None, website = None, created_at = Some 2, updated_at = Some 2,
            is_active = Some True, registration_number = None, tax_id = None, country = None,
            city = None, postal_code = None, employees_count = None \<rparr>"



definition two_posts :: "((nat \<Rightarrow> string) \<times> nat \<times> request) list" where
  "two_posts =
     [(\<lambda>i. ''c1'', 1, Post_company (JObj [(''name'', JStr ''Acme''), (''description'', JStr ''Old'')])),
      (\<lambda>i. ''c2'', 2, Post_company (JObj [(''name'', JStr ''Acme'')]))]"



section \<open>Properties\<close>

subsection \<open>The load, field by field\<close>

lemma field_errors_member:
  "f \<in> set fs \<Longrightarrow> load_field db p d f = Some (Inl m) \<Longrightarrow> (fst f, m) \<in> set (field_errors db p d fs)"
  by (induction fs) (auto split: option.splits sum.splits)

lemma field_errors_keys:
  "(k, m) \<in> set (field_errors db p d fs) \<Longrightarrow> \<exists>f \<in> set fs. fst f = k \<and> load_field db p d f = Some (Inl m)"
  by (induction fs) (auto split: option.splits sum.splits)

lemma load_field_present:
  "map_of d (fst f) = Some v \<Longrightarrow> load_field db p d f = Some (check_value db f v)"
  by (cases f) (simp add: load_field_def)

lemma load_Inl:
  "field_errors db p d schema_fields @ unknown_errors d \<noteq> [] \<Longrightarrow>
   load db p (JObj d) = Inl (field_errors db p d schema_fields @ unknown_errors d)"
  by (simp add: load_def Let_def)

lemma load_Inr:
  "load db p data = Inr loaded \<Longrightarrow>
   \<exists>d. data = JObj d \<and> field_errors db p d schema_fields = [] \<and> unknown_errors d = []
       \<and> loaded = field_values db p d schema_fields"
  by (cases data) (auto simp: load_def Let_def split: if_splits)

lemma violation_reported:
  assumes "f \<in> set schema_fields" "map_of d (fst f) = Some v" "check_value db f v = Inl msgs"
  shows "load db p (JObj d) = Inl (field_errors db p d schema_fields @ unknown_errors d)
         \<and> (fst f, msgs) \<in> set (field_errors db p d schema_fields @ unknown_errors d)"
proof -
  have "load_field db p d f = Some (Inl msgs)"
    using assms by (simp add: load_field_present)
  then have m: "(fst f, msgs) \<in> set (field_errors db p d schema_fields)"
    using assms(1) by (rule field_errors_member[rotated])
  then have "field_errors db p d schema_fields @ unknown_errors d \<noteq> []" by auto
  then show ?thesis using m by (simp add: load_Inl)
qed

lemma name_field: "(''name'', String_field 100, True, False) \<in> set schema_fields"
  by (simp add: schema_fields_def)

lemma get_by_name_present: "n \<in> name ` set db \<Longrightarrow> get_by_name db n \<noteq> None"
  by (auto simp: get_by_name_def find_None_iff)

lemma present_name_rejected:
  assumes "n \<in> name ` set db"
  shows "\<exists>m. check_value db (''name'', String_field 100, True, False) (JStr n) = Inl [m]
             \<and> (n \<noteq> [] \<and> length n \<le> 100 \<longrightarrow> m = ''Name must be unique.'')"
  using get_by_name_present[OF assms]
  by (auto simp: check_value_def deserialize_def validates_def validate_name_def message_def str_col_def)

lemma get_by_id_member: "get_by_id db cid = Some c \<Longrightarrow> c \<in> set db \<and> company_id c = cid"
  by (induction db) (auto simp: get_by_id_def split: if_splits)

subsection \<open>Rows written by \<open>create\<close> and \<open>update\<close>\<close>

lemma create_Inr:
  assumes "create new_id now db kw = Inr (c, db')"
  shows "db' = db @ [c]" and "company_id c = new_id" and "new_id \<notin> company_id ` set db"
    and "dict_get kw ''name'' = JStr (name c)"
    and "parent_id c = str_col (dict_get kw ''parent_id'')"
    and "organization_id c = None"
    and "is_active c = bool_col (dict_get_default kw ''is_active'' (JBool True))"
    and "employees_count c = int_col (dict_get kw ''employees_count'')"
proof -
  from assms have g: "new_id \<notin> set (map company_id db)" "dict_get kw ''name'' \<noteq> JNull"
    "str_col (dict_get kw ''name'') \<noteq> None"
    by (auto simp: create_def Let_def split: if_splits)
  then obtain s where s: "dict_get kw ''name'' = JStr s"
    by (cases "dict_get kw ''name''") (auto simp: str_col_def)
  from assms g have "c = \<lparr> company_id = new_id,
                         name = the (str_col (dict_get kw ''name'')),
                         description = str_col (dict_get kw ''description''),
                         logo_url = str_col (dict_get kw ''logo_url''),
                         parent_id = str_col (dict_get kw ''parent_id''),
                         organization_id = None,
                         address = str_col (dict_get kw ''address''),
                         email = str_col (dict_get kw ''email''),
                         phone_number = str_col (dict_get kw ''phone_number''),
                         website = str_col (dict_get kw ''website''),
                         created_at = Some now,
                         updated_at = Some now,
                         is_active = bool_col (dict_get_default kw ''is_active'' (JBool True)),
                         registration_number = str_col (dict_get kw ''registration_number''),
                         tax_id = str_col (dict_get kw ''tax_id''),
                         country = str_col (dict_get kw ''country''),
                         city = str_col (dict_get kw ''city''),
                         postal_code = str_col (dict_get kw ''postal_code''),
                         employees_count = int_col (dict_get kw ''employees_count'') \<rparr>"
    and d: "db' = db @ [c]"
    by (auto simp add: create_def Let_def split: if_splits)
  then show "db' = db @ [c]" and "company_id c = new_id" and "new_id \<notin> company_id ` set db"
    and "dict_get kw ''name'' = JStr (name c)"
    and "parent_id c = str_col (dict_get kw ''parent_id'')"
    and "organization_id c = None"
    and "is_active c = bool_col (dict_get_default kw ''is_active'' (JBool True))"
    and "employees_count c = int_col (dict_get kw ''employees_count'')"
    using g s by (simp_all add: str_col_def)
qed

lemma map_of_keyed:
  "map_of (map (\<lambda>k. (k, f k)) ks) k = (if k \<in> set ks then Some (f k) else None)"
  by (induction ks) auto

lemma update_kwargs_get:
  "k \<in> set patch_keys \<Longrightarrow> dict_get (update_kwargs d) k = dict_get d k"
  by (simp add: update_kwargs_def dict_get_def dict_get_default_def map_of_keyed dict_has_def
      split: option.splits)

lemma set_str_attr:
  "str_or_null v \<Longrightarrow> opt_str (set_str v old) = (if v = JNull then opt_str old else v)"
  by (cases v) (simp_all add: str_or_null_def set_str_def opt_str_def str_col_def)

lemma update_Inr:
  assumes "update now db c kw = Inr (c', db')"
  shows "db' = map (\<lambda>x. if company_id x = company_id c then c' else x) db"
    and "company_id c' = company_id c" and "created_at c' = created_at c"
    and "updated_at c' = Some now"
    and "k \<in> set patch_keys \<Longrightarrow>
           attr c' k = (if dict_get kw k = JNull then attr c k else dict_get kw k)"
proof -
  let ?arg = "dict_get kw"
  from assms have g: "?arg ''name'' = JNull \<or> str_col (?arg ''name'') \<noteq> None"
    "list_all (\<lambda>k. str_or_null (?arg k)) (''organization_id'' # text_kwargs)"
    "bool_or_null (?arg ''is_active'')" "int_or_null (?arg ''employees_count'')"
    by (auto simp: update_def Let_def split: if_splits)
  from assms g have c': "c' = c \<lparr>
                 name := (if ?arg ''name'' \<noteq> JNull then the (str_col (?arg ''name'')) else name c),
                 description := set_str (?arg ''description'') (description c),
                 logo_url := set_str (?arg ''logo_url'') (logo_url c),
                 parent_id := set_str (?arg ''parent_id'') (parent_id c),
                 organization_id := set_str (?arg ''organization_id'') (organization_id c),
                 address := set_str (?arg ''address'') (address c),
                 email := set_str (?arg ''email'') (email c),
                 phone_number := set_str (?arg ''phone_number'') (phone_number c),
                 website := set_str (?arg ''website'') (website c),
                 registration_number := set_str (?arg ''registration_number'') (registration_number c),
                 tax_id := set_str (?arg ''tax_id'') (tax_id c),
                 country := set_str (?arg ''country'') (country c),
                 city := set_str (?arg ''city'') (city c),
                 postal_code := set_str (?arg ''postal_code'') (postal_code c),
                 employees_count := (if ?arg ''employees_count'' \<noteq> JNull
                                     then int_col (?arg ''employees_count'') else employees_count c),
                 is_active := (if ?arg ''is_active'' \<noteq> JNull
                               then bool_col (?arg ''is_active'') else is_active c),
                 updated_at := Some now \<rparr>"
    and d: "db' = map (\<lambda>x. if company_id x = company_id c then c' else x) db"
    by (auto simp add: update_def Let_def split: if_splits)
  show "db' = map (\<lambda>x. if company_id x = company_id c then c' else x) db" by (rule d)
  show "company_id c' = company_id c" "created_at c' = created_at c" "updated_at c' = Some now"
    by (simp_all add: c')
  have sel:
    "name c' = (if ?arg ''name'' \<noteq> JNull then the (str_col (?arg ''name'')) else name c)"
    "description c' = set_str (?arg ''description'') (description c)"
    "logo_url c' = set_str (?arg ''logo_url'') (logo_url c)"
    "parent_id c' = set_str (?arg ''parent_id'') (parent_id c)"
    "organization_id c' = set_str (?arg ''organization_id'') (organization_id c)"
    "address c' = set_str (?arg ''address'') (address c)"
    "email c' = set_str (?arg ''email'') (email c)"
    "phone_number c' = set_str (?arg ''phone_number'') (phone_number c)"
    "website c' = set_str (?arg ''website'') (website c)"
    "registration_number c' = set_str (?arg ''registration_number'') (registration_number c)"
    "tax_id c' = set_str (?arg ''tax_id'') (tax_id c)"
    "country c' = set_str (?arg ''country'') (country c)"
    "city c' = set_str (?arg ''city'') (city c)"
    "postal_code c' = set_str (?arg ''postal_code'') (postal_code c)"
    "employees_count c' = (if ?arg ''employees_count'' \<noteq> JNull
                           then int_col (?arg ''employees_count'') else employees_count c)"
    "is_active c' = (if ?arg ''is_active'' \<noteq> JNull
                     then bool_col (?arg ''is_active'') else is_active c)"
    by (simp_all add: c')
  have n: "JStr (name c') = (if ?arg ''name'' = JNull then JStr (name c) else ?arg ''name'')"
    unfolding sel using g(1) by (cases "?arg ''name''") (auto simp: str_col_def)
  have e: "(case employees_count c' of None \<Rightarrow> JNull | Some n \<Rightarrow> JInt n)
           = (if ?arg ''employees_count'' = JNull
              then (case employees_count c of None \<Rightarrow> JNull | Some n \<Rightarrow> JInt n)
              else ?arg ''employees_count'')"
    unfolding sel using g(4) by (cases "?arg ''employees_count''") (auto simp: int_col_def int_or_null_def)
  have a: "(case is_active c' of None \<Rightarrow> JNull | Some b \<Rightarrow> JBool b)
           = (if ?arg ''is_active'' = JNull
              then (case is_active c of None \<Rightarrow> JNull | Some b \<Rightarrow> JBool b)
              else ?arg ''is_active'')"
    unfolding sel using g(3) by (cases "?arg ''is_active''") (auto simp: bool_col_def bool_or_null_def)
  have t: "opt_str (set_str (?arg k) old) = (if ?arg k = JNull then opt_str old else ?arg k)"
    if "k \<in> set (''organization_id'' # text_kwargs)" for k old
    using g(2) that by (intro set_str_attr) (auto simp add: list_all_iff)
  have ts:
    "opt_str (description c') = (if ?arg ''description'' = JNull then opt_str (description c) else ?arg ''description'')"
    "opt_str (logo_url c') = (if ?arg ''logo_url'' = JNull then opt_str (logo_url c) else ?arg ''logo_url'')"
    "opt_str (parent_id c') = (if ?arg ''parent_id'' = JNull then opt_str (parent_id c) else ?arg ''parent_id'')"
    "opt_str (organization_id c') = (if ?arg ''organization_id'' = JNull then opt_str (organization_id c) else ?arg ''organization_id'')"
    "opt_str (address c') = (if ?arg ''address'' = JNull then opt_str (address c) else ?arg ''address'')"
    "opt_str (email c') = (if ?arg ''email'' = JNull then opt_str (email c) else ?arg ''email'')"
    "opt_str (phone_number c') = (if ?arg ''phone_number'' = JNull then opt_str (phone_number c) else ?arg ''phone_number'')"
    "opt_str (website c') = (if ?arg ''website'' = JNull then opt_str (website c) else ?arg ''website'')"
    "opt_str (registration_number c') = (if ?arg ''registration_number'' = JNull then opt_str (registration_number c) else ?arg ''registration_number'')"
    "opt_str (tax_id c') = (if ?arg ''tax_id'' = JNull then opt_str (tax_id c) else ?arg ''tax_id'')"
    "opt_str (country c') = (if ?arg ''country'' = JNull then opt_str (country c) else ?arg ''country'')"
    "opt_str (city c') = (if ?arg ''city'' = JNull then opt_str (city c) else ?arg ''city'')"
    "opt_str (postal_code c') = (if ?arg ''postal_code'' = JNull then opt_str (postal_code c) else ?arg ''postal_code'')"
    unfolding sel by (rule t, simp add: text_kwargs_def)+
  assume "k \<in> set patch_keys"
  then have "k = ''name'' \<or> k = ''description'' \<or> k = ''address'' \<or> k = ''phone_number''
     \<or> k = ''email'' \<or> k = ''website'' \<or> k = ''logo_url'' \<or> k = ''registration_number''
     \<or> k = ''tax_id'' \<or> k = ''country'' \<or> k = ''city'' \<or> k = ''postal_code''
     \<or> k = ''employees_count'' \<or> k = ''is_active'' \<or> k = ''organization_id'' \<or> k = ''parent_id''"
    by (simp add: patch_keys_def)
  then show "attr c' k = (if dict_get kw k = JNull then attr c k else dict_get kw k)"
    by (elim disjE) (simp_all only: attr_def n e a ts list.inject char.inject simp_thms if_True if_False)
qed

subsection \<open>The name a load lets through\<close>

lemma field_values_keys:
  "map_of (field_values db p d fs) k = Some v \<Longrightarrow>
   \<exists>f \<in> set fs. fst f = k \<and> load_field db p d f = Some (Inr v)"
proof (induction fs)
  case Nil
  then show ?case by simp
next
  case (Cons f fs)
  then show ?case
    by (cases "load_field db p d f") (auto split: sum.splits if_splits)
qed

lemma field_errors_nil:
  "field_errors db p d fs = [] \<Longrightarrow> f \<in> set fs \<Longrightarrow> load_field db p d f \<noteq> Some (Inl m)"
  using field_errors_member[of f fs db p d m] by auto

lemma name_field_only:
  "f \<in> set schema_fields \<Longrightarrow> fst f = ''name'' \<Longrightarrow> f = (''name'', String_field 100, True, False)"
  by (auto simp: schema_fields_def)

lemma check_name_ok:
  assumes "check_value db (''name'', String_field 100, True, False) v = Inr w"
  shows "\<exists>n. v = JStr n \<and> w = JStr n \<and> n \<noteq> [] \<and> length n \<le> 100 \<and> n \<notin> name ` set db"
proof -
  from assms obtain n where n: "v = JStr n"
    by (cases v) (auto simp: check_value_def deserialize_def split: if_splits)
  from assms n have "w = JStr n" "n \<noteq> []" "length n \<le> 100" "get_by_name db n = None"
    by (auto simp: check_value_def deserialize_def validates_def validate_name_def message_def
        str_col_def split: if_splits option.splits)
  then show ?thesis using n get_by_name_present by blast
qed

lemma load_name_supplied:
  assumes "load db p (JObj d) = Inr loaded" and "map_of d ''name'' = Some v"
  shows "\<exists>n. v = JStr n \<and> n \<notin> name ` set db"
proof -
  from assms(1) have fe: "field_errors db p d schema_fields = []"
    by (auto dest: load_Inr)
  have "load_field db p d (''name'', String_field 100, True, False)
        = Some (check_value db (''name'', String_field 100, True, False) v)"
    using assms(2) by (simp add: load_field_present)
  with field_errors_nil[OF fe name_field]
  obtain w where "check_value db (''name'', String_field 100, True, False) v = Inr w"
    by (cases "check_value db (''name'', String_field 100, True, False) v") auto
  then show ?thesis using check_name_ok by blast
qed

lemma load_name_loaded:
  assumes "load db p data = Inr loaded" and "dict_get loaded ''name'' = JStr n"
  shows "n \<notin> name ` set db"
proof -
  from assms(1) obtain d where d: "data = JObj d" "loaded = field_values db p d schema_fields"
    by (auto dest: load_Inr)
  from assms(2) have "map_of loaded ''name'' = Some (JStr n)"
    by (auto simp: dict_get_def dict_get_default_def split: option.splits)
  with d obtain f where f: "f \<in> set schema_fields" "fst f = ''name''"
    "load_field db p d f = Some (Inr (JStr n))"
    using field_values_keys by blast
  then have lf: "load_field db p d (''name'', String_field 100, True, False) = Some (Inr (JStr n))"
    using name_field_only by metis
  then obtain v where "check_value db (''name'', String_field 100, True, False) v = Inr (JStr n)"
    by (auto simp: load_field_def split: option.splits if_splits)
  then show ?thesis using check_name_ok by blast
qed

lemma distinct_snoc_map:
  "distinct (map f xs) \<Longrightarrow> f x \<notin> f ` set xs \<Longrightarrow> distinct (map f (xs @ [x]))"
  by simp

lemma replace_row_ids:
  "company_id c' = cid \<Longrightarrow>
   map company_id (map (\<lambda>x. if company_id x = cid then c' else x) db) = map company_id db"
  by (induction db) auto

lemma replace_row_absent:
  "cid \<notin> company_id ` set db \<Longrightarrow> map (\<lambda>x. if company_id x = cid then c' else x) db = db"
  by (induction db) auto

lemma replace_row_names:
  assumes "distinct (map company_id db)" and "distinct (map name db)"
    and "c \<in> set db" and "company_id c = cid"
    and "name c' = name c \<or> name c' \<notin> name ` set db"
  shows "distinct (map name (map (\<lambda>x. if company_id x = cid then c' else x) db))"
proof -
  define g where "g = (\<lambda>x. if company_id x = cid then c' else x)"
  have only: "y = c" if "y \<in> set db" "company_id y = cid" for y
    using assms(1,3,4) that by (metis distinct_map inj_onD)
  have "distinct (map name (map g db))"
  proof (cases "name c' = name c")
    case True
    have "name (g y) = name y" if "y \<in> set db" for y
      using only[OF that] True by (auto simp: g_def)
    then have eq: "map name (map g db) = map name db" by simp
    show ?thesis unfolding eq by (rule assms(2))
  next
    case False
    with assms(5) have fresh: "name c' \<notin> name ` set db" by simp
    have inj: "inj_on (\<lambda>y. name (g y)) (set db)"
    proof (rule inj_onI)
      fix y z assume yz: "y \<in> set db" "z \<in> set db" "name (g y) = name (g z)"
      show "y = z"
      proof (cases "company_id y = cid")
        case True
        then have y: "y = c" using only yz(1) by simp
        show ?thesis
        proof (cases "company_id z = cid")
          case True
          then show ?thesis using only yz(2) y by simp
        next
          case False
          then have "name c' = name z" using yz True by (simp add: g_def)
          then have "name c' \<in> name ` set db" using yz(2) by simp
          then show ?thesis using fresh by simp
        qed
      next
        case False
        show ?thesis
        proof (cases "company_id z = cid")
          case True
          then have "name c' = name y" using yz False by (simp add: g_def)
          then have "name c' \<in> name ` set db" using yz(1) by simp
          then show ?thesis using fresh by simp
        next
          case zf: False
          then have "name y = name z" using yz False by (simp add: g_def)
          then show ?thesis using assms(2) yz by (meson distinct_map inj_onD)
        qed
      qed
    qed
    have "distinct db" using assms(1) by (simp add: distinct_map)
    then have "distinct (map (\<lambda>y. name (g y)) db)" using inj by (simp add: distinct_map)
    then show ?thesis by (simp add: comp_def)
  qed
  then show ?thesis by (simp add: g_def)
qed

subsection \<open>Every handler keeps identifiers and names distinct\<close>

lemma create_unique:
  assumes "unique_rows db" and "create new_id now db kw = Inr (c, db')"
    and "name c \<notin> name ` set db"
  shows "unique_rows db'"
  using assms create_Inr(1,2,3)[OF assms(2)] by (simp add: unique_rows_def)

lemma update_unique:
  assumes "unique_rows db" and "get_by_id db cid = Some c" and "update now db c kw = Inr (c', db')"
    and "name c' = name c \<or> name c' \<notin> name ` set db"
  shows "unique_rows db'"
proof -
  note u = update_Inr(1,2)[OF assms(3)]
  have c: "c \<in> set db" using assms(2) by (simp add: get_by_id_member)
  have "distinct (map company_id db')"
    using assms(1) u by (simp add: replace_row_ids unique_rows_def del: map_map)
  moreover have "distinct (map name db')"
    unfolding u(1) using assms(1,4) c
    by (intro replace_row_names[where c = c]) (simp_all add: unique_rows_def)
  ultimately show ?thesis by (simp add: unique_rows_def)
qed

lemma request_kwargs_name: "dict_get (request_kwargs d n) ''name'' = n"
  by (simp add: request_kwargs_def dict_get_def dict_get_default_def)

lemma post_unique:
  assumes "unique_rows db"
  shows "unique_rows (snd (CompanyListResource_post new_id now db json_data))"
proof (cases "load db False json_data")
  case (Inl e)
  then show ?thesis using assms by (simp add: CompanyListResource_post_def)
next
  case (Inr loaded)
  then obtain d where d: "json_data = JObj d" by (auto dest: load_Inr)
  show ?thesis
  proof (cases "map_of d ''name''")
    case None
    then show ?thesis using assms Inr d by (simp add: CompanyListResource_post_def)
  next
    case (Some n)
    show ?thesis
    proof (cases "create new_id now db (request_kwargs d n)")
      case (Inl e)
      then show ?thesis using assms Inr d Some by (simp add: CompanyListResource_post_def)
    next
      case cr: (Inr r)
      obtain c db' where r: "r = (c, db')" by (cases r)
      have "n = JStr (name c)"
        using create_Inr(4)[OF cr[unfolded r]] by (simp add: request_kwargs_name)
      then have "name c \<notin> name ` set db"
        using load_name_supplied[OF Inr[unfolded d] Some] by simp
      then have "unique_rows db'"
        using create_unique[OF assms cr[unfolded r]] by simp
      then show ?thesis using Inr d Some cr r by (simp add: CompanyListResource_post_def)
    qed
  qed
qed

lemma put_unique:
  assumes "unique_rows db"
  shows "unique_rows (snd (CompanyResource_put now db cid json_data))"
proof (cases "load db False json_data")
  case (Inl e)
  then show ?thesis using assms by (simp add: CompanyResource_put_def)
next
  case (Inr loaded)
  then obtain d where d: "json_data = JObj d" by (auto dest: load_Inr)
  show ?thesis
  proof (cases "get_by_id db cid")
    case None
    then show ?thesis using assms Inr by (simp add: CompanyResource_put_def)
  next
    case c: (Some c)
    show ?thesis
    proof (cases "map_of d ''name''")
      case None
      then show ?thesis using assms Inr d c by (simp add: CompanyResource_put_def)
    next
      case (Some n)
      show ?thesis
      proof (cases "update now db c (request_kwargs d n)")
        case (Inl e)
        then show ?thesis using assms Inr d c Some by (simp add: CompanyResource_put_def)
      next
        case up: (Inr r)
        obtain c' db' where r: "r = (c', db')" by (cases r)
        obtain s where s: "n = JStr s" "s \<notin> name ` set db"
          using load_name_supplied[OF Inr[unfolded d] Some] by blast
        have "JStr (name c') = n"
          using update_Inr(5)[OF up[unfolded r], of "''name''"] s
          by (simp add: request_kwargs_name patch_keys_def attr_def)
        then have "name c' \<notin> name ` set db" using s by auto
        then have "unique_rows db'"
          using update_unique[OF assms c up[unfolded r]] by simp
        then show ?thesis using Inr d c Some up r by (simp add: CompanyResource_put_def)
      qed
    qed
  qed
qed

lemma patch_unique:
  assumes "unique_rows db"
  shows "unique_rows (snd (CompanyResource_patch now db cid json_data))"
proof (cases "load db True json_data")
  case (Inl e)
  then show ?thesis using assms by (simp add: CompanyResource_patch_def)
next
  case (Inr loaded)
  then obtain d where d: "json_data = JObj d" by (auto dest: load_Inr)
  show ?thesis
  proof (cases "get_by_id db cid")
    case None
    then show ?thesis using assms Inr by (simp add: CompanyResource_patch_def)
  next
    case c: (Some c)
    show ?thesis
    proof (cases "update now db c (update_kwargs d)")
      case (Inl e)
      then show ?thesis using assms Inr d c by (simp add: CompanyResource_patch_def)
    next
      case up: (Inr r)
      obtain c' db' where r: "r = (c', db')" by (cases r)
      have a: "JStr (name c') = (if dict_get d ''name'' = JNull then JStr (name c) else dict_get d ''name'')"
        using update_Inr(5)[OF up[unfolded r], of "''name''"]
        by (simp add: update_kwargs_get patch_keys_def attr_def)
      have "name c' = name c \<or> name c' \<notin> name ` set db"
      proof (cases "map_of d ''name''")
        case None
        then show ?thesis using a by (simp add: dict_get_def dict_get_default_def)
      next
        case (Some n)
        then obtain s where s: "n = JStr s" "s \<notin> name ` set db"
          using load_name_supplied[OF Inr[unfolded d]] by blast
        then show ?thesis using a Some by (simp add: dict_get_def dict_get_default_def)
      qed
      then have "unique_rows db'"
        using update_unique[OF assms c up[unfolded r]] by simp
      then show ?thesis using Inr d c up r by (simp add: CompanyResource_patch_def)
    qed
  qed
qed

lemma delete_unique:
  assumes "unique_rows db"
  shows "unique_rows (snd (CompanyResource_delete db cid))"
  using assms
  by (auto simp: CompanyResource_delete_def delete_def unique_rows_def distinct_map_filter
      split: option.splits)

lemma import_kwargs_get: "dict_get (import_kwargs loaded) ''name'' = dict_get loaded ''name''"
  by (simp add: import_kwargs_def dict_get_def dict_get_default_def)

lemma import_rows_unique:
  "unique_rows db \<Longrightarrow> unique_rows (snd (import_rows ids now items idx db count errs))"
proof (induction items arbitrary: idx db count errs)
  case Nil
  then show ?case by simp
next
  case (Cons item rest)
  show ?case
  proof (cases "load db False item")
    case (Inl e)
    then show ?thesis using Cons by simp
  next
    case (Inr loaded)
    show ?thesis
    proof (cases "create (ids idx) now db (import_kwargs loaded)")
      case (Inl e)
      then show ?thesis using Cons.prems Inr by simp
    next
      case cr: (Inr r)
      obtain c db' where r: "r = (c, db')" by (cases r)
      have "dict_get loaded ''name'' = JStr (name c)"
        using create_Inr(4)[OF cr[unfolded r]] by (simp add: import_kwargs_get)
      then have "name c \<notin> name ` set db"
        using load_name_loaded[OF Inr] by simp
      then have "unique_rows db'"
        using create_unique[OF Cons.prems cr[unfolded r]] by simp
      then show ?thesis using Cons.IH Inr cr r by simp
    qed
  qed
qed

lemma handle_unique:
  assumes "unique_rows db"
  shows "unique_rows (snd (handle ids now isoformat db r))"
proof (cases r)
  case (Import_json up)
  then show ?thesis
    using assms import_rows_unique[OF assms]
    by (auto simp: handle_def ImportJSONResource_post_def split: upload.splits json.splits prod.splits)
       (metis snd_conv)
next
  case (Import_csv up)
  then show ?thesis
    using assms import_rows_unique[OF assms]
    by (auto simp: handle_def ImportCSVResource_post_def split: upload.splits prod.splits)
       (metis snd_conv)
qed (use assms in \<open>simp_all add: handle_def post_unique put_unique patch_unique delete_unique
      CompanyListResource_get_def CompanyResource_get_def ExportCSVResource_get_def
      split: option.splits\<close>)

lemma serve_unique: "unique_rows db \<Longrightarrow> unique_rows (serve isoformat db rs)"
  by (induction rs arbitrary: db) (auto simp: handle_unique)

subsection \<open>A loaded row is created\<close>











subsection \<open>Integers as text, and back\<close>










subsection \<open>An exported row, loaded again\<close>





















subsection \<open>Length limits of the string fields\<close>



subsection \<open>Creating under a name that exists\<close>

text \<open>
  Claim C2. For every table and every \<open>POST /companies\<close> whose body gives, under
  \<open>name\<close>, the name of a row of the table (the same string, character by character),
  the response is the 400 validation response, its error dict has the key \<open>name\<close>,
  and the table is unchanged. When the name is one the other rules accept (not empty, at
  most 100 characters) the message is the one of the uniqueness check.
\<close>

theorem post_duplicate_name_rejected:
  assumes "map_of d ''name'' = Some (JStr n)" and "n \<in> name ` set db"
  shows "\<exists>errs. CompanyListResource_post new_id now db (JObj d) = ((Validation_error errs, 400), db)
           \<and> ''name'' \<in> fst ` set errs
           \<and> (n \<noteq> [] \<and> length n \<le> 100 \<longrightarrow> (''name'', [''Name must be unique.'']) \<in> set errs)"
proof -
  obtain m where m: "check_value db (''name'', String_field 100, True, False) (JStr n) = Inl [m]"
    and u: "n \<noteq> [] \<and> length n \<le> 100 \<longrightarrow> m = ''Name must be unique.''"
    using present_name_rejected[OF assms(2)] by blast
  let ?errs = "field_errors db False d schema_fields @ unknown_errors d"
  have l: "load db False (JObj d) = Inl ?errs" and i: "(''name'', [m]) \<in> set ?errs"
    using violation_reported[OF name_field _ m, of d False] assms(1) by simp_all
  have "CompanyListResource_post new_id now db (JObj d) = ((Validation_error ?errs, 400), db)"
    by (simp add: CompanyListResource_post_def l)
  moreover have "''name'' \<in> fst ` set ?errs" using i by force
  moreover have "n \<noteq> [] \<and> length n \<le> 100 \<longrightarrow> (''name'', [''Name must be unique.'']) \<in> set ?errs"
    using i u by auto
  ultimately show ?thesis by blast
qed

theorem post_duplicate_name_rejected_witness:
  "\<exists>errs. CompanyListResource_post ''c2'' 2 [acme] (JObj [(''name'', JStr ''Acme''), (''city'', JStr ''Paris'')])
             = ((Validation_error errs, 400), [acme])
         \<and> ''name'' \<in> fst ` set errs
         \<and> (''name'', [''Name must be unique.'']) \<in> set errs"
  using post_duplicate_name_rejected [of "[(''name'', JStr ''Acme''), (''city'', JStr ''Paris'')]" "''Acme''" "[acme]" "''c2''" 2]
  by (simp add: acme_def)

subsection \<open>Updating under a name that exists\<close>

text \<open>
  Claim C10. The uniqueness check does not exempt the row that is being updated. A
  \<open>PUT\<close> or \<open>PATCH\<close> whose body gives, under \<open>name\<close>, the current name of the
  addressed company, or the name of any row of the table, is answered with the 400
  validation response with the key \<open>name\<close>, and the table is unchanged: the load
  fails before the row is looked up.
\<close>

theorem update_present_name_rejected:
  assumes "map_of d ''name'' = Some (JStr n)"
    and "(\<exists>c. get_by_id db cid = Some c \<and> name c = n) \<or> n \<in> name ` set db"
  shows "\<exists>errs errs'.
           CompanyResource_put now db cid (JObj d) = ((Validation_error errs, 400), db)
         \<and> ''name'' \<in> fst ` set errs
         \<and> CompanyResource_patch now db cid (JObj d) = ((Validation_error errs', 400), db)
         \<and> ''name'' \<in> fst ` set errs'"
proof -
  have present: "n \<in> name ` set db"
    using assms(2) by (auto dest: get_by_id_member)
  obtain m where m: "check_value db (''name'', String_field 100, True, False) (JStr n) = Inl [m]"
    using present_name_rejected[OF present] by blast
  let ?e = "\<lambda>p. field_errors db p d schema_fields @ unknown_errors d"
  have l: "load db p (JObj d) = Inl (?e p)" and i: "(''name'', [m]) \<in> set (?e p)" for p
    using violation_reported[OF name_field _ m, of d p] assms(1) by simp_all
  have "CompanyResource_put now db cid (JObj d) = ((Validation_error (?e False), 400), db)"
    by (simp add: CompanyResource_put_def l)
  moreover have "CompanyResource_patch now db cid (JObj d) = ((Validation_error (?e True), 400), db)"
    by (simp add: CompanyResource_patch_def l)
  moreover have "''name'' \<in> fst ` set (?e p)" for p using i[of p] by force
  ultimately show ?thesis by blast
qed

theorem update_present_name_rejected_witness:
  "\<exists>errs errs'.
       CompanyResource_put 2 [acme] ''c1'' (JObj [(''name'', JStr ''Acme''), (''city'', JStr ''Paris'')])
         = ((Validation_error errs, 400), [acme])
     \<and> ''name'' \<in> fst ` set errs
     \<and> CompanyResource_patch 2 [acme] ''c1'' (JObj [(''name'', JStr ''Acme''), (''city'', JStr ''Paris'')])
         = ((Validation_error errs', 400), [acme])
     \<and> ''name'' \<in> fst ` set errs'"
  using update_present_name_rejected [of "[(''name'', JStr ''Acme''), (''city'', JStr ''Paris'')]" "''Acme''" "[acme]" "''c1''" 2]
  by (simp add: acme_def get_by_id_def)

subsection \<open>All violations are collected\<close>

text \<open>
  Claim C8. Every supplied field is checked on its own and the violations of all fields
  come back in one response. Whenever some field of the schema violates its rule (its
  value fails in \<open>check_value\<close>: the null check, the type, the length or the
  \<open>@validates\<close> method), the load fails, and its error dict has, for every supplied
  field that violates its rule, the entry of that field with the field's messages.
  \<open>POST\<close> and \<open>PUT\<close> (full load) and \<open>PATCH\<close> (partial load) answer with
  that dict and status 400 and leave the table as it was.
\<close>

theorem all_violations_collected:
  assumes "f \<in> set schema_fields" and "map_of d (fst f) = Some v" and "check_value db f v = Inl msgs"
  shows "\<exists>errs. load db partial (JObj d) = Inl errs
           \<and> (\<forall>g \<in> set schema_fields. \<forall>w ms. map_of d (fst g) = Some w \<longrightarrow> check_value db g w = Inl ms
                  \<longrightarrow> (fst g, ms) \<in> set errs)
           \<and> (\<not> partial \<longrightarrow> CompanyListResource_post new_id now db (JObj d) = ((Validation_error errs, 400), db)
                           \<and> CompanyResource_put now db cid (JObj d) = ((Validation_error errs, 400), db))
           \<and> (partial \<longrightarrow> CompanyResource_patch now db cid (JObj d) = ((Validation_error errs, 400), db))"
proof -
  let ?errs = "field_errors db partial d schema_fields @ unknown_errors d"
  have l: "load db partial (JObj d) = Inl ?errs"
    using violation_reported[OF assms] by simp
  have "(fst g, ms) \<in> set ?errs"
    if "g \<in> set schema_fields" "map_of d (fst g) = Some w" "check_value db g w = Inl ms" for g w ms
    using violation_reported[OF that] by simp
  moreover have "CompanyListResource_post new_id now db (JObj d) = ((Validation_error ?errs, 400), db)"
    "CompanyResource_put now db cid (JObj d) = ((Validation_error ?errs, 400), db)" if "\<not> partial"
    using l that by (simp_all add: CompanyListResource_post_def CompanyResource_put_def)
  moreover have "CompanyResource_patch now db cid (JObj d) = ((Validation_error ?errs, 400), db)" if "partial"
    using l that by (simp add: CompanyResource_patch_def)
  ultimately show ?thesis using l by blast
qed

theorem all_violations_collected_witness:
  "CompanyListResource_post ''c2'' 2 [acme] (JObj bad_payload)
     = ((Validation_error [(''name'', [''Name cannot be empty.'']),
                           (''email'', [''Email must be a valid email address.'']),
                           (''employees_count'', [''Employees count must be a non-negative integer.''])], 400), [acme])"
proof -
  have f: "(''name'', String_field 100, True, False) \<in> set schema_fields"
    by (simp add: schema_fields_def)
  have v: "map_of bad_payload (fst (''name'', String_field 100, True, False)) = Some (JStr [])"
    by (simp add: bad_payload_def)
  have c: "check_value [acme] (''name'', String_field 100, True, False) (JStr []) = Inl [''Name cannot be empty.'']"
    by (simp add: check_value_def deserialize_def validates_def validate_name_def message_def str_col_def)
  have l: "load [acme] False (JObj bad_payload)
     = Inl [(''name'', [''Name cannot be empty.'']),
            (''email'', [''Email must be a valid email address.'']),
            (''employees_count'', [''Employees count must be a non-negative integer.''])]"
    by (simp add: load_def bad_payload_def schema_fields_def load_field_def check_value_def
        deserialize_def validates_def validate_name_def validate_email_def
        validate_employees_count_def exceeds_def message_def str_col_def int_col_def unknown_errors_def)
  show ?thesis
    using all_violations_collected [OF f v c, of False "''c2''" 2 "''c1''"] l by auto
qed

subsection \<open>What a created company takes from the request\<close>

text \<open>
  Claim C9. \<open>POST /companies\<close> never persists \<open>parent_id\<close>,
  \<open>organization_id\<close> or \<open>is_active\<close> from the request body: whenever the
  request creates a company (the only response that carries one is 201), the created row
  is the last row of the table, its \<open>parent_id\<close> and \<open>organization_id\<close> are
  null and its \<open>is_active\<close> is true, whatever the body says; and when the body has
  no \<open>employees_count\<close> the row's \<open>employees_count\<close> is 0, not null.
\<close>

theorem post_never_persists_parent_org_active:
  assumes "CompanyListResource_post new_id now db (JObj d) = ((Company_json c, st), db')"
  shows "st = 201 \<and> db' = db @ [c]
       \<and> parent_id c = None \<and> organization_id c = None \<and> is_active c = Some True
       \<and> (map_of d ''employees_count'' = None \<longrightarrow> employees_count c = Some 0)"
proof -
  from assms obtain n where n: "map_of d ''name'' = Some n"
    and cr: "create new_id now db (request_kwargs d n) = Inr (c, db')" and st: "st = 201"
    by (auto simp: CompanyListResource_post_def storage_failure_def
        split: sum.splits option.splits storage_error.splits)
  have "dict_get (request_kwargs d n) ''parent_id'' = JNull"
    "dict_get_default (request_kwargs d n) ''is_active'' (JBool True) = JBool True"
    "dict_get (request_kwargs d n) ''employees_count'' = dict_get_default d ''employees_count'' (JInt 0)"
    by (simp_all add: request_kwargs_def dict_get_def dict_get_default_def)
  then show ?thesis
    using create_Inr[OF cr] st
    by (simp add: str_col_def bool_col_def int_col_def dict_get_default_def)
qed

text \<open>A body that names a parent, an organisation and \<open>is_active = false\<close>.\<close>

lemma post_beta:
  "CompanyListResource_post ''c2'' 2 [acme] (JObj beta_payload) = ((Company_json beta, 201), [acme, beta])"
  by code_simp

theorem post_never_persists_parent_org_active_witness:
  "CompanyListResource_post ''c2'' 2 [acme] (JObj beta_payload) = ((Company_json beta, 201), [acme, beta])
   \<and> parent_id beta = None \<and> organization_id beta = None \<and> is_active beta = Some True
   \<and> employees_count beta = Some 0"
  using post_never_persists_parent_org_active [OF post_beta] post_beta
  by (simp add: beta_payload_def)

subsection \<open>Partial update\<close>





subsection \<open>Full update\<close>

text \<open>
  Claim C3 says that \<open>PUT /companies/{id}\<close> replaces all: after a successful
  \<open>PUT\<close> every attribute equals the value of the body, and an attribute the body
  leaves out is reset. The handler passes \<open>None\<close> for what the body leaves out, and
  \<open>Company.update\<close> skips every argument that is \<open>None\<close>: on the company
  \<open>acme\<close>, whose description is \<open>Old\<close>, a \<open>PUT\<close> with the body
  \<open>{"name": "Beta"}\<close> succeeds and the description is still \<open>Old\<close>.
\<close>

theorem put_keeps_attributes_left_out:
  "CompanyResource_put 2 [acme] ''c1'' (JObj [(''name'', JStr ''Beta'')])
     = ((Company_json (acme \<lparr> name := ''Beta'', updated_at := Some 2 \<rparr>), 200),
        [acme \<lparr> name := ''Beta'', updated_at := Some 2 \<rparr>])
   \<and> description (acme \<lparr> name := ''Beta'', updated_at := Some 2 \<rparr>) = Some ''Old''"
  by code_simp

subsection \<open>Imports report every row\<close>







subsection \<open>Uniqueness of names\<close>

text \<open>
  Claim C1 says that the storage layer enforces the uniqueness of names: inserting a row
  under a name that exists fails with \<open>IntegrityError\<close>. The table declares no
  such constraint, and \<open>Company.create\<close> with a new identifier inserts the row:
  after it two rows are named alike. This is the insert of a request whose validation
  ran before the other row was committed.
\<close>

theorem create_accepts_existing_name:
  "create ''c2'' 2 [acme] [(''name'', JStr ''Acme'')] = Inr (acme_twin, [acme, acme_twin])
   \<and> name acme_twin = name acme \<and> \<not> distinct (map name [acme, acme_twin])"
  by code_simp

text \<open>
  Claim C1, amended. The uniqueness of names rests on the check of the Validation Engine
  alone. When requests are served one after another, each handled to its end before the
  next, every table that is reached from the empty one has pairwise distinct names and
  pairwise distinct identifiers.
\<close>

theorem served_requests_keep_names_unique:
  "unique_rows (serve isoformat [] rs)"
  by (rule serve_unique) (simp add: unique_rows_def)

lemma serve_two_posts:
  "serve isoformat [] two_posts = [acme]"
  by (simp add: two_posts_def handle_def, code_simp)

theorem served_requests_keep_names_unique_witness:
  "serve (\<lambda>t. ''T'') [] two_posts = [acme] \<and> unique_rows (serve (\<lambda>t. ''T'') [] two_posts)"
  using served_requests_keep_names_unique [of "\<lambda>t. ''T''" two_posts] serve_two_posts
  by simp

subsection \<open>Export to CSV, then import\<close>







end
